theory Spec2Isabelle
  imports Complex_Main
begin

section \<open>The trivia quiz of \<^verbatim>\<open>trivia.js\<close>\<close>

text \<open>
  The program is a Node.js script: one global object \<^verbatim>\<open>gameState\<close>, a readline
  interface, and callbacks run by the event loop. Every function of the script becomes a
  function on an explicit state; what a callback captures becomes data of the pending
  callback; an exception is a value. Numbers of the script that hold integers (indices,
  points, whole seconds) are \<^typ>\<open>int\<close>, quotients are exact rationals.
  Strings are lists of bytes, so the whitespace and the letters known to the model are the
  ASCII ones: a line with other characters that JavaScript trims, skips or lowers (U+00A0,
  U+FEFF, U+2028, the Kelvin sign U+212A, ...) is outside the model.
\<close>

subsection \<open>Strings: \<^verbatim>\<open>trim\<close>, \<^verbatim>\<open>toLowerCase\<close>, \<^verbatim>\<open>parseInt\<close>\<close>

definition isWhiteSpace :: "char \<Rightarrow> bool" where
  "isWhiteSpace c \<longleftrightarrow> c \<in> set [CHR '' '', CHR 0x09, CHR 0x0A, CHR 0x0B, CHR 0x0C, CHR 0x0D]"

definition trim :: "string \<Rightarrow> string" where
  "trim s = rev (dropWhile isWhiteSpace (rev (dropWhile isWhiteSpace s)))"

definition lowerTable :: "(char \<times> char) list" where
  "lowerTable = zip ''ABCDEFGHIJKLMNOPQRSTUVWXYZ'' ''abcdefghijklmnopqrstuvwxyz''"

definition toLowerChar :: "char \<Rightarrow> char" where
  "toLowerChar c = (case map_of lowerTable c of Some d \<Rightarrow> d | None \<Rightarrow> c)"

definition toLowerCase :: "string \<Rightarrow> string" where
  "toLowerCase s = map toLowerChar s"

text \<open>
  \<^verbatim>\<open>parseInt(string)\<close> with no radix: skip leading whitespace, read an optional sign, switch
  to radix 16 after a prefix \<^verbatim>\<open>0x\<close> or \<^verbatim>\<open>0X\<close>, then read the longest run of digits of the
  radix. No digit gives \<^verbatim>\<open>NaN\<close> (here \<open>None\<close>); whatever follows the digits is dropped.
\<close>

definition digitTable :: "(char \<times> int) list" where
  "digitTable =
    [(CHR ''0'', 0), (CHR ''1'', 1), (CHR ''2'', 2), (CHR ''3'', 3), (CHR ''4'', 4),
     (CHR ''5'', 5), (CHR ''6'', 6), (CHR ''7'', 7), (CHR ''8'', 8), (CHR ''9'', 9),
     (CHR ''a'', 10), (CHR ''b'', 11), (CHR ''c'', 12), (CHR ''d'', 13), (CHR ''e'', 14),
     (CHR ''f'', 15),
     (CHR ''A'', 10), (CHR ''B'', 11), (CHR ''C'', 12), (CHR ''D'', 13), (CHR ''E'', 14),
     (CHR ''F'', 15)]"

definition digitOf :: "int \<Rightarrow> char \<Rightarrow> int option" where
  "digitOf radix c =
    (case map_of digitTable c of
       Some v \<Rightarrow> if v < radix then Some v else None
     | None \<Rightarrow> None)"

definition isDigitOf :: "int \<Rightarrow> char \<Rightarrow> bool" where
  "isDigitOf radix c \<longleftrightarrow> digitOf radix c \<noteq> None"

definition digitsValue :: "int \<Rightarrow> string \<Rightarrow> int" where
  "digitsValue radix ds = foldl (\<lambda>acc c. acc * radix + the (digitOf radix c)) 0 ds"

fun stripSign :: "string \<Rightarrow> int \<times> string" where
  "stripSign (c # cs) =
    (if c = CHR ''-'' then (- 1, cs) else if c = CHR ''+'' then (1, cs) else (1, c # cs))"
| "stripSign [] = (1, [])"

fun stripRadix :: "string \<Rightarrow> int \<times> string" where
  "stripRadix (c # d # cs) =
    (if c = CHR ''0'' \<and> (d = CHR ''x'' \<or> d = CHR ''X'') then (16, cs) else (10, c # d # cs))"
| "stripRadix cs = (10, cs)"

definition parseInt :: "string \<Rightarrow> int option" where
  "parseInt s =
    (let (sign, s1) = stripSign (dropWhile isWhiteSpace s);
         (radix, s2) = stripRadix s1;
         ds = takeWhile (isDigitOf radix) s2
     in if ds = [] then None else Some (sign * digitsValue radix ds))"

subsection \<open>Data: questions and the game state\<close>

record questionObj =
  question :: string
  options :: "string list"
  answer :: int
  category :: string
  points :: int

record gameState =
  currentQuestionIndex :: int
  score :: int
  totalTime :: int
  gameActive :: bool
  questions :: "questionObj list"
  timePerQuestion :: int
  timerId :: "nat option"

text \<open>The object literal of \<^verbatim>\<open>gameState\<close> at the top of the script.\<close>

definition initialGameState :: gameState where
  "initialGameState =
    \<lparr>currentQuestionIndex = 0, score = 0, totalTime = 0, gameActive = False,
     questions = [], timePerQuestion = 30, timerId = None\<rparr>"

text \<open>The two questions \<^verbatim>\<open>loadQuestions\<close> falls back to when the file cannot be read.\<close>

definition fallbackQuestions :: "questionObj list" where
  "fallbackQuestions =
    [\<lparr>question = ''What is 2 + 2?'', options = [''3'', ''4'', ''5'', ''6''], answer = 1,
      category = ''Math'', points = 5\<rparr>,
     \<lparr>question = ''What color is the sky?'',
      options = [''Red'', ''Green'', ''Blue'', ''Yellow''], answer = 2,
      category = ''Science'', points = 5\<rparr>]"

subsection \<open>Numbers that may be \<^verbatim>\<open>NaN\<close> or infinite\<close>

text \<open>
  Division in the script never raises: a zero divisor gives \<^verbatim>\<open>NaN\<close> or an infinity,
  and every comparison with \<^verbatim>\<open>NaN\<close> is false. A finite quotient is kept exact.
\<close>

datatype jsNumber = Num rat | NaN | PosInfinity | NegInfinity

definition jsDivide :: "int \<Rightarrow> int \<Rightarrow> jsNumber" where
  "jsDivide a b =
    (if b \<noteq> 0 then Num (of_int a / of_int b)
     else if a = 0 then NaN
     else if 0 < a then PosInfinity else NegInfinity)"

fun jsTimes :: "jsNumber \<Rightarrow> rat \<Rightarrow> jsNumber" where
  "jsTimes (Num r) k = Num (r * k)"
| "jsTimes NaN k = NaN"
| "jsTimes PosInfinity k = (if 0 < k then PosInfinity else if k < 0 then NegInfinity else NaN)"
| "jsTimes NegInfinity k = (if 0 < k then NegInfinity else if k < 0 then PosInfinity else NaN)"

fun jsGe :: "jsNumber \<Rightarrow> rat \<Rightarrow> bool" where
  "jsGe (Num r) k \<longleftrightarrow> k \<le> r"
| "jsGe NaN k \<longleftrightarrow> False"
| "jsGe PosInfinity k \<longleftrightarrow> True"
| "jsGe NegInfinity k \<longleftrightarrow> False"

fun isFiniteNumber :: "jsNumber \<Rightarrow> bool" where
  "isFiniteNumber (Num r) \<longleftrightarrow> True"
| "isFiniteNumber x \<longleftrightarrow> False"

subsection \<open>What the script prints\<close>

record catStat =
  statQuestions :: int
  statPoints :: int

record report =
  totalQuestions :: int
  questionsAnswered :: int
  totalScore :: int
  timeTaken :: int
  averageTime :: jsNumber
  grade :: string
  categoryStats :: "string \<rightharpoonup> catStat"
  feedback :: string

datatype message =
    Welcome
  | UsingDefaultQuestions
  | QuizSummary
  | MenuShown
  | Rules
  | InvalidOption
  | Goodbye
  | GameStarting
  | ShowQuestion int questionObj
  | InvalidAnswer
  | CorrectWithBonus int
  | Incorrect int
  | TimesUp
  | Skipped
  | GameOver report

datatype jsError = ReferenceError | TypeError

datatype 'a completion = Returned 'a | Threw jsError

subsection \<open>\<^verbatim>\<open>processAnswer\<close>\<close>

text \<open>
  The result is how the call completes, the game state it leaves and the lines it printed.
  In the branch of a right answer without time bonus the template string reads
  \<^verbatim>\<open>pointsObj.points\<close>; no \<^verbatim>\<open>pointsObj\<close> is declared anywhere, so evaluating it throws a
  \<^verbatim>\<open>ReferenceError\<close> before the score is touched.
\<close>

definition processAnswer ::
  "questionObj \<Rightarrow> string \<Rightarrow> int \<Rightarrow> gameState \<Rightarrow> bool completion \<times> gameState \<times> message list"
where
  "processAnswer questionObj userAnswer answerTime g =
    (let correctIndex = answer questionObj in
     case parseInt userAnswer of
       None \<Rightarrow> (Returned False, g, [InvalidAnswer])
     | Some n \<Rightarrow>
        (let userIndex = n - 1 in
         if userIndex < 0 \<or> int (length (options questionObj)) \<le> userIndex
         then (Returned False, g, [InvalidAnswer])
         else if userIndex = correctIndex then
           (if 0 < timePerQuestion g
               \<and> (of_int answerTime :: rat) < of_int (timePerQuestion g) / 2
            then
              (let pointsEarned =
                 points questionObj + \<lfloor>(of_int (points questionObj) :: rat) * (1 / 2)\<rfloor>
               in (Returned True, g\<lparr>score := score g + pointsEarned\<rparr>,
                   [CorrectWithBonus pointsEarned]))
            else (Threw ReferenceError, g, []))
         else (Returned False, g, [Incorrect correctIndex])))"

subsection \<open>\<^verbatim>\<open>calculateGrade\<close> and the report of \<^verbatim>\<open>endGame\<close>\<close>

text \<open>The expression \<^verbatim>\<open>(score / totalPossible) * 100\<close>, written out in both functions.\<close>

definition percentageOf :: "int \<Rightarrow> int \<Rightarrow> jsNumber" where
  "percentageOf score' totalPossible = jsTimes (jsDivide score' totalPossible) 100"

text \<open>The grades and the feedback lines are kept without their emoji.\<close>

definition calculateGrade :: "int \<Rightarrow> int \<Rightarrow> string" where
  "calculateGrade score' totalPossible =
    (let percentage = percentageOf score' totalPossible in
     if jsGe percentage 90 then ''A+''
     else if jsGe percentage 80 then ''A''
     else if jsGe percentage 70 then ''B''
     else if jsGe percentage 60 then ''C''
     else if jsGe percentage 50 then ''D''
     else ''F'')"

definition finalFeedback :: "jsNumber \<Rightarrow> string" where
  "finalFeedback percentage =
    (if jsGe percentage 80 then ''Outstanding! You're a trivia master!''
     else if jsGe percentage 60 then ''Great job! You know your stuff!''
     else if jsGe percentage 40 then ''Good effort! Keep practicing!''
     else ''Keep learning! Every expert was once a beginner!'')"

text \<open>\<^verbatim>\<open>gameState.questions.filter((q, i) => i < questionsAnswered)\<close>\<close>

definition reachedQuestions :: "questionObj list \<Rightarrow> int \<Rightarrow> questionObj list" where
  "reachedQuestions qs questionsAnswered' =
    map fst (filter (\<lambda>(q, i). int i < questionsAnswered') (zip qs [0..<length qs]))"

text \<open>
  The statistics are collected in an object created as \<^verbatim>\<open>{}\<close>, which inherits the
  properties of \<^verbatim>\<open>Object.prototype\<close>. For a category with one of these names the test
  \<^verbatim>\<open>!stats[q.category]\<close> finds the inherited (truthy) value, no entry is created, and the two
  updates land on the inherited value: \<^verbatim>\<open>stats\<close> keeps its own properties as they were.
\<close>

definition objectPrototypeProperties :: "string list" where
  "objectPrototypeProperties =
    [''constructor'', ''__defineGetter__'', ''__defineSetter__'', ''hasOwnProperty'',
     ''__lookupGetter__'', ''__lookupSetter__'', ''isPrototypeOf'', ''propertyIsEnumerable'',
     ''toString'', ''valueOf'', ''__proto__'', ''toLocaleString'']"

definition addCategory :: "(string \<rightharpoonup> catStat) \<Rightarrow> questionObj \<Rightarrow> (string \<rightharpoonup> catStat)" where
  "addCategory stats q =
    (case stats (category q) of
       Some s \<Rightarrow>
         stats(category q \<mapsto>
           \<lparr>statQuestions = statQuestions s + 1, statPoints = statPoints s + points q\<rparr>)
     | None \<Rightarrow>
         if category q \<in> set objectPrototypeProperties then stats
         else stats(category q \<mapsto> \<lparr>statQuestions = 1, statPoints = points q\<rparr>))"

text \<open>\<^verbatim>\<open>gameState.questions.reduce((total, q) => total + q.points, 0)\<close>\<close>

definition totalPossiblePoints :: "questionObj list \<Rightarrow> int" where
  "totalPossiblePoints qs = foldl (\<lambda>total q. total + points q) 0 qs"

text \<open>
  The values \<^verbatim>\<open>endGame\<close> prints. The average is shown through \<^verbatim>\<open>toFixed(1)\<close>; the model
  keeps the quotient. \<^verbatim>\<open>correctAnswers\<close> is computed and never used.
\<close>

definition endGameReport :: "gameState \<Rightarrow> report" where
  "endGameReport g =
    (let totalQuestions' = int (length (questions g));
         questionsAnswered' = currentQuestionIndex g;
         totalPossiblePoints' = totalPossiblePoints (questions g);
         categoryStats' =
           foldl addCategory Map.empty (reachedQuestions (questions g) questionsAnswered')
     in \<lparr>totalQuestions = totalQuestions',
         questionsAnswered = questionsAnswered',
         totalScore = score g,
         timeTaken = totalTime g,
         averageTime =
           (if 0 < questionsAnswered' then jsDivide (totalTime g) questionsAnswered' else Num 0),
         grade = calculateGrade (score g) totalPossiblePoints',
         categoryStats = categoryStats',
         feedback = finalFeedback (percentageOf (score g) totalPossiblePoints')\<rparr>)"

subsection \<open>The event loop\<close>

text \<open>
  Node runs one callback at a time. Between two callbacks the program is described by the
  game state, the printed lines, and what is waiting:
  \<^item> the callback of the one question readline has open (\<^verbatim>\<open>rl.question\<close> called while a
    question is open only shows the prompt again, the new callback is not kept);
  \<^item> the intervals started by \<^verbatim>\<open>setInterval\<close> and not yet cleared, each with the variables
    its callback captured (\<^verbatim>\<open>timeLeft\<close> of \<^verbatim>\<open>startTimer\<close>, \<^verbatim>\<open>answered\<close> of \<^verbatim>\<open>nextQuestion\<close>);
  \<^item> the callbacks given to \<^verbatim>\<open>setTimeout\<close> that have not run yet;
  \<^item> whether \<^verbatim>\<open>fs.readFile\<close> is under way.
  An exception that leaves \<^verbatim>\<open>nextQuestion\<close> rejects its promise. For the first question
  of a game the rejection travels up the \<^verbatim>\<open>await\<close>s to the \<^verbatim>\<open>catch\<close> of \<^verbatim>\<open>main\<close>, which
  prints it and closes readline; for a later question, started from a timeout, nothing
  handles it. The model records the error in \<open>thrown\<close> and follows the program no
  further, as it follows it no further after \<^verbatim>\<open>rl.close()\<close>.
  The order in which pending timeouts and intervals fire is left to the events; the
  delays themselves (1000, 1500 and 2000 ms) are not part of the state.
  \<^verbatim>\<open>console.clear()\<close> is not modelled: \<open>console\<close> is the history of what was printed.
  The handler of \<^verbatim>\<open>SIGINT\<close>, which exits the process, is left out.
\<close>

datatype pending =
    ShowMenuAwait
  | StartGameAwait
  | NextQuestionAwait questionObj
  | PlayAgainCallback

datatype timeoutCallback = TimeoutAdvance | CallNextQuestion

record interval =
  timeLeft :: int
  answered :: bool

record world =
  gs :: gameState
  console :: "message list"
  questionCallback :: "pending option"
  intervals :: "(nat \<times> interval) list"
  nextTimer :: nat
  timeouts :: "timeoutCallback list"
  readingFile :: bool
  closed :: bool
  thrown :: "jsError option"

definition say :: "message \<Rightarrow> world \<Rightarrow> world" where
  "say m w = w\<lparr>console := console w @ [m]\<rparr>"

definition rlQuestion :: "pending \<Rightarrow> world \<Rightarrow> world" where
  "rlQuestion k w = (if questionCallback w = None then w\<lparr>questionCallback := Some k\<rparr> else w)"

definition setTimeout :: "timeoutCallback \<Rightarrow> world \<Rightarrow> world" where
  "setTimeout cb w = w\<lparr>timeouts := timeouts w @ [cb]\<rparr>"

definition clearInterval :: "nat option \<Rightarrow> world \<Rightarrow> world" where
  "clearInterval tid w =
    (case tid of
       None \<Rightarrow> w
     | Some i \<Rightarrow> w\<lparr>intervals := filter (\<lambda>(j, iv). j \<noteq> i) (intervals w)\<rparr>)"

definition startTimer :: "world \<Rightarrow> nat option \<times> world" where
  "startTimer w =
    (if timePerQuestion (gs w) \<le> 0 then (None, w)
     else (Some (nextTimer w),
           w\<lparr>intervals := intervals w @
                [(nextTimer w, \<lparr>timeLeft = timePerQuestion (gs w), answered = False\<rparr>)],
             nextTimer := nextTimer w + 1\<rparr>))"

definition endGame :: "world \<Rightarrow> world" where
  "endGame w =
    (let w1 = w\<lparr>gs := (gs w)\<lparr>gameActive := False\<rparr>\<rparr>;
         w2 = clearInterval (timerId (gs w1)) w1
     in rlQuestion PlayAgainCallback (say (GameOver (endGameReport (gs w2))) w2))"

text \<open>\<^verbatim>\<open>nextQuestion\<close> up to its \<^verbatim>\<open>await\<close>.\<close>

definition nextQuestion :: "world \<Rightarrow> world" where
  "nextQuestion w =
    (if \<not> gameActive (gs w) \<or> int (length (questions (gs w))) \<le> currentQuestionIndex (gs w)
     then endGame w
     else if currentQuestionIndex (gs w) < 0 then w\<lparr>thrown := Some TypeError\<rparr>
     else
      (let currentQuestion = questions (gs w) ! nat (currentQuestionIndex (gs w));
           w1 = say (ShowQuestion (currentQuestionIndex (gs w)) currentQuestion) w;
           w2 = (if 0 < timePerQuestion (gs w1)
                 then (let (tid, w') = startTimer (clearInterval (timerId (gs w1)) w1)
                       in w'\<lparr>gs := (gs w')\<lparr>timerId := tid\<rparr>\<rparr>)
                 else w1)
       in rlQuestion (NextQuestionAwait currentQuestion) w2))"

text \<open>
  \<^verbatim>\<open>nextQuestion\<close> from the line it was waiting for: \<open>userAnswer\<close> is the trimmed line and
  \<open>answerTime\<close> the whole seconds since the question was asked.
\<close>

definition nextQuestionResume :: "questionObj \<Rightarrow> string \<Rightarrow> int \<Rightarrow> world \<Rightarrow> world" where
  "nextQuestionResume currentQuestion userAnswer answerTime w =
    (let w1 = (if 0 < timePerQuestion (gs w) then clearInterval (timerId (gs w)) w else w) in
     if toLowerCase userAnswer = ''quit'' then endGame w1
     else if toLowerCase userAnswer = ''skip'' then
       setTimeout CallNextQuestion
         ((say Skipped w1)
            \<lparr>gs := (gs w1)\<lparr>currentQuestionIndex := currentQuestionIndex (gs w1) + 1\<rparr>\<rparr>)
     else
       (case processAnswer currentQuestion userAnswer answerTime (gs w1) of
          (Threw e, g, out) \<Rightarrow> w1\<lparr>gs := g, console := console w1 @ out, thrown := Some e\<rparr>
        | (Returned isCorrect, g, out) \<Rightarrow>
            setTimeout CallNextQuestion
              (w1\<lparr>gs := g\<lparr>currentQuestionIndex := currentQuestionIndex g + 1,
                          totalTime := totalTime g + answerTime\<rparr>,
                  console := console w1 @ out\<rparr>)))"

text \<open>
  One firing of the interval of \<^verbatim>\<open>startTimer\<close>, with the callback \<^verbatim>\<open>nextQuestion\<close> gave it.
  Nothing in it clears the interval.
\<close>

definition timerTick :: "nat \<Rightarrow> world \<Rightarrow> world" where
  "timerTick i w =
    (case map_of (intervals w) i of
       None \<Rightarrow> w
     | Some iv \<Rightarrow>
        (let timeLeft' = timeLeft iv - 1;
             store = (\<lambda>v. map (\<lambda>(j, old). if j = i then (j, v) else (j, old)) (intervals w))
         in if timeLeft' \<le> 0 \<and> \<not> answered iv
            then setTimeout TimeoutAdvance
                   (say TimesUp
                      (w\<lparr>intervals := store \<lparr>timeLeft = timeLeft', answered = True\<rparr>\<rparr>))
            else w\<lparr>intervals := store (iv\<lparr>timeLeft := timeLeft'\<rparr>)\<rparr>))"

fun runTimeout :: "timeoutCallback \<Rightarrow> world \<Rightarrow> world" where
  "runTimeout TimeoutAdvance w =
    nextQuestion (w\<lparr>gs := (gs w)\<lparr>currentQuestionIndex := currentQuestionIndex (gs w) + 1\<rparr>\<rparr>)"
| "runTimeout CallNextQuestion w = nextQuestion w"

definition main :: "world \<Rightarrow> world" where
  "main w = (say Welcome w)\<lparr>readingFile := True\<rparr>"

definition showMenu :: "world \<Rightarrow> world" where
  "showMenu w = rlQuestion ShowMenuAwait (say MenuShown w)"

text \<open>\<^verbatim>\<open>main\<close> from the end of \<^verbatim>\<open>loadQuestions\<close>; \<open>None\<close> is a file that could not be read or parsed.\<close>

definition mainResume :: "questionObj list option \<Rightarrow> world \<Rightarrow> world" where
  "mainResume loaded w =
    (let w1 = (case loaded of
                 Some qs \<Rightarrow> w\<lparr>gs := (gs w)\<lparr>questions := qs\<rparr>\<rparr>
               | None \<Rightarrow>
                   (say UsingDefaultQuestions w)
                     \<lparr>gs := (gs w)\<lparr>questions := fallbackQuestions\<rparr>\<rparr>)
     in showMenu (say QuizSummary w1))"

definition startGame :: "world \<Rightarrow> world" where
  "startGame w =
    rlQuestion StartGameAwait
      (say GameStarting
         (w\<lparr>gs := (gs w)\<lparr>gameActive := True, currentQuestionIndex := 0, score := 0,
                         totalTime := 0\<rparr>\<rparr>))"

definition startGameResume :: "string \<Rightarrow> world \<Rightarrow> world" where
  "startGameResume useTimer w =
    nextQuestion
      (if toLowerCase useTimer = ''no'' then w\<lparr>gs := (gs w)\<lparr>timePerQuestion := 0\<rparr>\<rparr> else w)"

definition showMenuResume :: "string \<Rightarrow> world \<Rightarrow> world" where
  "showMenuResume choice w =
    (if choice = ''1'' then startGame w
     else if choice = ''2'' then showMenu (say Rules w)
     else if choice = ''3'' then (say Goodbye w)\<lparr>closed := True\<rparr>
     else showMenu (say InvalidOption w))"

text \<open>The callback of \<^verbatim>\<open>Play again?\<close> in \<^verbatim>\<open>endGame\<close>; it gets the line untrimmed.\<close>

definition playAgain :: "string \<Rightarrow> world \<Rightarrow> world" where
  "playAgain answer' w =
    (if toLowerCase answer' = ''yes'' then main w else (say Goodbye w)\<lparr>closed := True\<rparr>)"

text \<open>
  The events: a line typed by the player (with the whole seconds since the open question
  was asked), a firing of the interval with the given handle, the run of the pending
  timeout at the given position, and the end of the file read.
\<close>

datatype event =
    Line string int
  | Tick nat
  | Fire nat
  | FileRead "questionObj list option"

fun resume :: "pending \<Rightarrow> string \<Rightarrow> int \<Rightarrow> world \<Rightarrow> world" where
  "resume ShowMenuAwait line t w = showMenuResume (trim line) w"
| "resume StartGameAwait line t w = startGameResume (trim line) w"
| "resume (NextQuestionAwait q) line t w = nextQuestionResume q (trim line) t w"
| "resume PlayAgainCallback line t w = playAgain line w"

definition step :: "event \<Rightarrow> world \<Rightarrow> world" where
  "step ev w =
    (if closed w \<or> thrown w \<noteq> None then w
     else case ev of
       Line line t \<Rightarrow>
         (case questionCallback w of
            None \<Rightarrow> w
          | Some k \<Rightarrow> resume k line t (w\<lparr>questionCallback := None\<rparr>))
     | Tick i \<Rightarrow> timerTick i w
     | Fire n \<Rightarrow>
         (if n < length (timeouts w)
          then runTimeout (timeouts w ! n)
                 (w\<lparr>timeouts := take n (timeouts w) @ drop (Suc n) (timeouts w)\<rparr>)
          else w)
     | FileRead loaded \<Rightarrow>
         (if readingFile w then mainResume loaded (w\<lparr>readingFile := False\<rparr>) else w))"

fun run :: "event list \<Rightarrow> world \<Rightarrow> world" where
  "run [] w = w"
| "run (ev # evs) w = run evs (step ev w)"

text \<open>The script's last line calls \<^verbatim>\<open>main()\<close> on the initial game state.\<close>

definition start :: world where
  "start =
    main \<lparr>gs = initialGameState, console = [], questionCallback = None, intervals = [],
          nextTimer = 0, timeouts = [], readingFile = False, closed = False,
          thrown = None\<rparr>"

definition reachable :: "world \<Rightarrow> bool" where
  "reachable w \<longleftrightarrow> (\<exists>evs. w = run evs start)"

subsection \<open>Some sessions\<close>

text \<open>The indices of the questions that were displayed, in order.\<close>

fun shownQuestions :: "message list \<Rightarrow> int list" where
  "shownQuestions [] = []"
| "shownQuestions (ShowQuestion i q # ms) = i # shownQuestions ms"
| "shownQuestions (m # ms) = shownQuestions ms"

text \<open>
  The file cannot be read, the player starts a game from the menu and answers the timer
  prompt with yes or with no.
\<close>

definition timedGame :: "event list" where
  "timedGame = [FileRead None, Line ''1'' 0, Line ''yes'' 0]"

definition untimedGame :: "event list" where
  "untimedGame = [FileRead None, Line ''1'' 0, Line ''no'' 0]"

text \<open>The player lets the 30 seconds of the first question pass.\<close>

definition firstQuestionTimesOut :: "event list" where
  "firstQuestionTimesOut = timedGame @ replicate 30 (Tick 0)"

text \<open>The same, one second before the time is up.\<close>

definition almostTimedOut :: "event list" where
  "almostTimedOut = timedGame @ replicate 29 (Tick 0)"

text \<open>
  The player skips the first question after 2 seconds, the next one is shown (with the
  interval of handle 1), and its 30 seconds pass.
\<close>

definition lastQuestionTimesOut :: "event list" where
  "lastQuestionTimesOut = timedGame @ [Line ''skip'' 2, Fire 0] @ replicate 30 (Tick 1)"

text \<open>
  A game without timer that the player quits, then a second game for which the player asks
  for the timer.
\<close>

definition replayWithTimer :: "event list" where
  "replayWithTimer =
    untimedGame @ [Line ''quit'' 4, Line ''yes'' 0, FileRead None, Line ''1'' 0, Line ''yes'' 0]"

text \<open>The reports printed by \<^verbatim>\<open>endGame\<close>, in order, and the entry of a report for a category.\<close>

fun reportsPrinted :: "message list \<Rightarrow> report list" where
  "reportsPrinted [] = []"
| "reportsPrinted (GameOver r # ms) = r # reportsPrinted ms"
| "reportsPrinted (m # ms) = reportsPrinted ms"

definition tallyOf :: "string \<Rightarrow> report \<Rightarrow> catStat option" where
  "tallyOf c r = categoryStats r c"

text \<open>The player lets the 30 seconds of both questions pass.\<close>

definition bothQuestionsTimeOut :: "event list" where
  "bothQuestionsTimeOut = firstQuestionTimesOut @ [Fire 0] @ replicate 30 (Tick 1) @ [Fire 0]"

text \<open>
  The time of the first question passes and the player types \<^verbatim>\<open>quit\<close> within the two
  seconds before the advance of the timeout runs.
\<close>

definition quitAfterTimeout :: "event list" where
  "quitAfterTimeout = firstQuestionTimesOut @ [Line ''quit'' 30]"

text \<open>
  A file with two questions, the first of a category named \<^verbatim>\<open>constructor\<close>; the player,
  without timer, skips the first question and quits at the second.
\<close>

definition constructorQuestions :: "questionObj list" where
  "constructorQuestions =
    [\<lparr>question = ''What does new call?'', options = [''a'', ''b'', ''c'', ''d''], answer = 0,
      category = ''constructor'', points = 5\<rparr>,
     \<lparr>question = ''What is 2 + 2?'', options = [''3'', ''4'', ''5'', ''6''], answer = 1,
      category = ''Math'', points = 5\<rparr>]"

definition constructorQuiz :: "event list" where
  "constructorQuiz =
    [FileRead (Some constructorQuestions), Line ''1'' 0, Line ''no'' 0, Line ''skip'' 3,
     Fire 0, Line ''quit'' 2]"

text \<open>The file holds an empty list of questions.\<close>

definition emptyQuiz :: "event list" where
  "emptyQuiz = [FileRead (Some []), Line ''1'' 0, Line ''no'' 0]"

section \<open>Properties\<close>

lemmas string_defs =
  isWhiteSpace_def trim_def lowerTable_def toLowerChar_def toLowerCase_def digitTable_def
  digitOf_def isDigitOf_def digitsValue_def parseInt_def

lemmas handler_defs =
  say_def rlQuestion_def setTimeout_def clearInterval_def startTimer_def endGame_def
  nextQuestion_def nextQuestionResume_def timerTick_def main_def showMenu_def
  mainResume_def startGame_def startGameResume_def showMenuResume_def playAgain_def
  step_def start_def initialGameState_def fallbackQuestions_def Let_def

lemmas trace_defs =
  timedGame_def untimedGame_def firstQuestionTimesOut_def lastQuestionTimesOut_def
  replayWithTimer_def emptyQuiz_def almostTimedOut_def bothQuestionsTimeOut_def
  quitAfterTimeout_def constructorQuiz_def constructorQuestions_def tallyOf_def

subsection \<open>Scoring a right answer\<close>

lemma floor_half: "\<lfloor>(of_int p :: rat) * (1 / 2)\<rfloor> = p div 2"
  by (simp add: floor_divide_of_int_eq [where ?'a = rat, of p 2, simplified])

lemma floor_half_divide: "\<lfloor>(of_int p :: rat) / 2\<rfloor> = p div 2"
  using floor_half [of p] by simp

text \<open>\<^verbatim>\<open>processAnswer\<close> in integer arithmetic, for evaluation.\<close>

lemma processAnswer_code:
  "processAnswer questionObj userAnswer answerTime g =
    (case parseInt userAnswer of
       None \<Rightarrow> (Returned False, g, [InvalidAnswer])
     | Some n \<Rightarrow>
         if n - 1 < 0 \<or> int (length (options questionObj)) \<le> n - 1
         then (Returned False, g, [InvalidAnswer])
         else if n - 1 = answer questionObj then
           (if 0 < timePerQuestion g \<and> 2 * answerTime < timePerQuestion g
            then (Returned True,
                  g\<lparr>score := score g + (points questionObj + points questionObj div 2)\<rparr>,
                  [CorrectWithBonus (points questionObj + points questionObj div 2)])
            else (Threw ReferenceError, g, []))
         else (Returned False, g, [Incorrect (answer questionObj)]))"
proof -
  have "(of_int answerTime :: rat) < of_int (timePerQuestion g) / 2
      \<longleftrightarrow> 2 * answerTime < timePerQuestion g"
  proof -
    have "(of_int answerTime :: rat) < of_int (timePerQuestion g) / 2
      \<longleftrightarrow> (of_int (2 * answerTime) :: rat) < of_int (timePerQuestion g)"
      by (simp add: field_simps)
    then show ?thesis
      by (simp only: of_int_less_iff)
  qed
  then show ?thesis
    by (simp add: processAnswer_def Let_def floor_half_divide split: option.splits)
qed

lemmas eval_defs =
  trace_defs string_defs handler_defs processAnswer_code eval_nat_numeral

text \<open>
  A right answer that earns no time bonus, whatever the reason (no timer, or half the time
  gone), ends in the branch that throws: no point is added.
\<close>

lemma processAnswer_right_answer_without_bonus:
  assumes "parseInt userAnswer = Some n"
    and "0 \<le> n - 1" and "n - 1 < int (length (options q))" and "n - 1 = answer q"
    and "timePerQuestion g \<le> 0 \<or> (of_int (timePerQuestion g) :: rat) / 2 \<le> of_int answerTime"
  shows "processAnswer q userAnswer answerTime g = (Threw ReferenceError, g, [])"
  using assms by (auto simp: processAnswer_def Let_def)

text \<open>
  Claim C1: a right answer given with the timer disabled, or with the timer enabled and at
  least half of the time used, earns exactly \<^verbatim>\<open>question.points\<close>, added to the score.
  The script does not do this. With the fallback questions, the answer \<^verbatim>\<open>2\<close> to the first
  question is right; without timer (after 4 seconds) or with the 30 second timer (after 15
  seconds) \<^verbatim>\<open>processAnswer\<close> throws a \<^verbatim>\<open>ReferenceError\<close> and leaves the score as it was. In a
  whole run (file unreadable, menu choice 1, no timer, answer 2) the error ends the game:
  the score is still 0, the index is still 0 and no next question is scheduled.
\<close>

theorem right_answer_without_bonus_throws:
  "processAnswer (fallbackQuestions ! 0) ''2'' 4 (initialGameState\<lparr>timePerQuestion := 0\<rparr>)
     = (Threw ReferenceError, initialGameState\<lparr>timePerQuestion := 0\<rparr>, [])
   \<and> processAnswer (fallbackQuestions ! 0) ''2'' 15 initialGameState
     = (Threw ReferenceError, initialGameState, [])
   \<and> thrown (run [FileRead None, Line ''1'' 0, Line ''no'' 0, Line ''2'' 4] start)
     = Some ReferenceError
   \<and> score (gs (run [FileRead None, Line ''1'' 0, Line ''no'' 0, Line ''2'' 4] start)) = 0
   \<and> currentQuestionIndex
       (gs (run [FileRead None, Line ''1'' 0, Line ''no'' 0, Line ''2'' 4] start)) = 0
   \<and> timeouts (run [FileRead None, Line ''1'' 0, Line ''no'' 0, Line ''2'' 4] start) = []"
  by (simp add: string_defs handler_defs processAnswer_code)

text \<open>
  Claim C2: a right answer given with the timer enabled and in less than half of the time
  earns \<^verbatim>\<open>question.points + floor(question.points * 0.5)\<close>, which is printed and added to the
  score; with the timer disabled no call of \<^verbatim>\<open>processAnswer\<close> prints a bonus or changes the
  game state, so the bonus is never applied.
\<close>

theorem time_bonus_only_with_timer:
  assumes "parseInt userAnswer = Some n"
    and "0 \<le> n - 1" and "n - 1 < int (length (options q))" and "n - 1 = answer q"
    and "0 < timePerQuestion g"
    and "(of_int answerTime :: rat) < of_int (timePerQuestion g) / 2"
    and "timePerQuestion g0 \<le> 0"
  shows "processAnswer q userAnswer answerTime g
           = (Returned True,
              g\<lparr>score := score g + (points q + \<lfloor>(of_int (points q) :: rat) * (1 / 2)\<rfloor>)\<rparr>,
              [CorrectWithBonus (points q + \<lfloor>(of_int (points q) :: rat) * (1 / 2)\<rfloor>)])
         \<and> \<lfloor>(of_int (points q) :: rat) * (1 / 2)\<rfloor> = points q div 2
         \<and> fst (snd (processAnswer q' userAnswer' answerTime' g0)) = g0
         \<and> CorrectWithBonus p \<notin> set (snd (snd (processAnswer q' userAnswer' answerTime' g0)))"
proof -
  have bonus: "processAnswer q userAnswer answerTime g
           = (Returned True,
              g\<lparr>score := score g + (points q + \<lfloor>(of_int (points q) :: rat) * (1 / 2)\<rfloor>)\<rparr>,
              [CorrectWithBonus (points q + \<lfloor>(of_int (points q) :: rat) * (1 / 2)\<rfloor>)])"
    using assms(1-6) by (simp add: processAnswer_def Let_def)
  have disabled: "fst (snd (processAnswer q' userAnswer' answerTime' g0)) = g0
      \<and> CorrectWithBonus p \<notin> set (snd (snd (processAnswer q' userAnswer' answerTime' g0)))"
    using assms(7) by (simp add: processAnswer_def Let_def split: option.splits)
  show ?thesis
    using bonus disabled floor_half by blast
qed

theorem time_bonus_only_with_timer_witness:
  "processAnswer (fallbackQuestions ! 0) ''2'' 10 initialGameState
     = (Returned True, initialGameState\<lparr>score := 7\<rparr>, [CorrectWithBonus 7])
   \<and> fst (snd (processAnswer (fallbackQuestions ! 0) ''2'' 10
                 (initialGameState\<lparr>timePerQuestion := 0\<rparr>)))
     = initialGameState\<lparr>timePerQuestion := 0\<rparr>"
proof -
  have parsed: "parseInt ''2'' = Some 2"
    by (simp add: string_defs)
  have budget: "(of_int 10 :: rat) < of_int (timePerQuestion initialGameState) / 2"
    by (simp add: initialGameState_def)
  from time_bonus_only_with_timer
         [of "''2''" 2 "fallbackQuestions ! 0" initialGameState 10
             "initialGameState\<lparr>timePerQuestion := 0\<rparr>"
             "fallbackQuestions ! 0" "''2''" 10 7,
          OF parsed _ _ _ _ budget]
  show ?thesis
    by (simp add: fallbackQuestions_def initialGameState_def)
qed

subsection \<open>The answer is read by its integer prefix\<close>

lemma isDigitOf_10: "isDigitOf 10 c \<longleftrightarrow> c \<in> set ''0123456789''"
  by (simp add: isDigitOf_def digitOf_def digitTable_def)

lemma digit_plain:
  assumes "isDigitOf 10 c"
  shows "\<not> isWhiteSpace c" "c \<noteq> CHR ''-''" "c \<noteq> CHR ''+''" "c \<noteq> CHR ''x''" "c \<noteq> CHR ''X''"
  using assms by (auto simp: isDigitOf_10 isWhiteSpace_def)

lemma digit_not_zero: "isDigitOf 10 c \<Longrightarrow> 1 \<le> the (digitOf 10 c) \<Longrightarrow> c \<noteq> CHR ''0''"
  by (auto simp: digitOf_def digitTable_def)

lemma stripRadix_decimal:
  assumes "c \<noteq> CHR ''0'' \<or> (cs \<noteq> [] \<and> hd cs \<noteq> CHR ''x'' \<and> hd cs \<noteq> CHR ''X'')"
  shows "stripRadix (c # cs) = (10, c # cs)"
  using assms by (cases cs) auto

lemma takeWhile_digits:
  assumes "\<forall>c\<in>set ds. isDigitOf 10 c" "rest = [] \<or> \<not> isDigitOf 10 (hd rest)"
  shows "takeWhile (isDigitOf 10) (ds @ rest) = ds"
proof -
  have "takeWhile (isDigitOf 10) rest = []"
    using assms(2) by (cases rest) auto
  with assms(1) show ?thesis by simp
qed

text \<open>
  Decimal digits with a value of at least 1, followed by anything that does not start with
  a decimal digit, parse to the value of the digits. (A lone \<^verbatim>\<open>0\<close> followed by \<^verbatim>\<open>x\<close> would
  switch to radix 16, which the value excludes.)
\<close>

lemma parseInt_digits_then_rest:
  assumes "ds \<noteq> []" "\<forall>c\<in>set ds. isDigitOf 10 c"
    and "rest = [] \<or> \<not> isDigitOf 10 (hd rest)"
    and "1 \<le> digitsValue 10 ds"
  shows "parseInt (ds @ rest) = Some (digitsValue 10 ds)"
proof -
  obtain d ds' where ds: "ds = d # ds'"
    using assms(1) by (cases ds) auto
  have d: "isDigitOf 10 d"
    using assms(2) ds by simp
  have ws: "dropWhile isWhiteSpace (ds @ rest) = ds @ rest"
    using digit_plain(1) [OF d] ds by simp
  have sign: "stripSign (ds @ rest) = (1, ds @ rest)"
    using digit_plain(2,3) [OF d] ds by simp
  have radix: "stripRadix (ds @ rest) = (10, ds @ rest)"
  proof (cases ds')
    case Nil
    then have "1 \<le> the (digitOf 10 d)"
      using assms(4) ds by (simp add: digitsValue_def)
    then have "d \<noteq> CHR ''0''"
      using d by (rule digit_not_zero [rotated])
    then show ?thesis
      using ds by (simp add: stripRadix_decimal)
  next
    case (Cons e es)
    then have "isDigitOf 10 e"
      using assms(2) ds by simp
    then have "e \<noteq> CHR ''x''" "e \<noteq> CHR ''X''"
      by (rule digit_plain(4), rule digit_plain(5))
    then show ?thesis
      using ds Cons by simp
  qed
  show ?thesis
    using assms(1) ws sign radix takeWhile_digits [OF assms(2,3)]
    by (simp add: parseInt_def)
qed

text \<open>
  Claim C10: an answer is accepted by its integer prefix. Decimal digits naming an option
  \<open>i\<close> with \<open>1 \<le> i \<le> length options\<close>, followed by any text that does not go on with a
  digit, parse to \<open>i\<close>; \<^verbatim>\<open>processAnswer\<close> then does exactly what it does for the digits alone,
  and that is never the invalid-answer branch. So \<^verbatim>\<open>3abc\<close> is option 3. The same holds for
  any other input that \<^verbatim>\<open>parseInt\<close> reads as \<open>i\<close>.
\<close>

theorem answer_accepted_by_integer_prefix:
  assumes "ds \<noteq> []" and "\<forall>c\<in>set ds. isDigitOf 10 c"
    and "rest = [] \<or> \<not> isDigitOf 10 (hd rest)"
    and "1 \<le> digitsValue 10 ds" and "digitsValue 10 ds \<le> int (length (options q))"
    and "parseInt input = Some (digitsValue 10 ds)"
  shows "parseInt (ds @ rest) = Some (digitsValue 10 ds)
         \<and> processAnswer q (ds @ rest) answerTime g = processAnswer q ds answerTime g
         \<and> InvalidAnswer \<notin> set (snd (snd (processAnswer q (ds @ rest) answerTime g)))
         \<and> processAnswer q input answerTime g = processAnswer q ds answerTime g"
proof -
  have whole: "parseInt (ds @ rest) = Some (digitsValue 10 ds)"
    using assms(1-4) by (rule parseInt_digits_then_rest)
  have alone: "parseInt ds = Some (digitsValue 10 ds)"
    using parseInt_digits_then_rest [OF assms(1,2) _ assms(4), of "[]"] by simp
  have same: "processAnswer q (ds @ rest) answerTime g = processAnswer q ds answerTime g"
    by (simp add: processAnswer_def whole alone)
  have valid: "InvalidAnswer \<notin> set (snd (snd (processAnswer q (ds @ rest) answerTime g)))"
    using assms(4,5) by (simp add: processAnswer_def whole Let_def)
  have other: "processAnswer q input answerTime g = processAnswer q ds answerTime g"
    by (simp add: processAnswer_def assms(6) alone)
  show ?thesis
    using whole same valid other by blast
qed

theorem answer_accepted_by_integer_prefix_witness:
  "parseInt ''3abc'' = Some 3
   \<and> processAnswer (fallbackQuestions ! 1) ''3abc'' 2 initialGameState
     = processAnswer (fallbackQuestions ! 1) ''3'' 2 initialGameState
   \<and> processAnswer (fallbackQuestions ! 1) ''3abc'' 2 initialGameState
     = (Returned True, initialGameState\<lparr>score := 7\<rparr>, [CorrectWithBonus 7])
   \<and> processAnswer (fallbackQuestions ! 1) ''+0x3, I think'' 2 initialGameState
     = (Returned True, initialGameState\<lparr>score := 7\<rparr>, [CorrectWithBonus 7])"
proof -
  have digits: "\<forall>c\<in>set ''3''. isDigitOf 10 c"
    by (simp add: isDigitOf_10)
  have rest: "''abc'' = [] \<or> \<not> isDigitOf 10 (hd ''abc'')"
    by (simp add: isDigitOf_10)
  have low: "1 \<le> digitsValue 10 ''3''"
    by (simp add: string_defs)
  have high: "digitsValue 10 ''3'' \<le> int (length (options (fallbackQuestions ! 1)))"
    by (simp add: string_defs fallbackQuestions_def)
  have other: "parseInt ''+0x3, I think'' = Some (digitsValue 10 ''3'')"
    by (simp add: string_defs)
  have alone: "processAnswer (fallbackQuestions ! 1) ''3'' 2 initialGameState
     = (Returned True, initialGameState\<lparr>score := 7\<rparr>, [CorrectWithBonus 7])"
    by (simp add: string_defs processAnswer_code fallbackQuestions_def initialGameState_def)
  from answer_accepted_by_integer_prefix
         [of "''3''" "''abc''" "fallbackQuestions ! 1" "''+0x3, I think''" 2 initialGameState,
          OF _ digits rest low high other]
  show ?thesis
    using alone by (simp add: string_defs)
qed

subsection \<open>What the handlers leave of the game state\<close>

lemma gs_rlQuestion [simp]: "gs (rlQuestion k w) = gs w"
  by (simp add: rlQuestion_def)

lemma gs_say [simp]: "gs (say m w) = gs w"
  by (simp add: say_def)

lemma gs_setTimeout [simp]: "gs (setTimeout cb w) = gs w"
  by (simp add: setTimeout_def)

lemma clearInterval_keeps [simp]:
  "gs (clearInterval tid w) = gs w"
  "console (clearInterval tid w) = console w"
  "timeouts (clearInterval tid w) = timeouts w"
  "closed (clearInterval tid w) = closed w"
  "thrown (clearInterval tid w) = thrown w"
  "questionCallback (clearInterval tid w) = questionCallback w"
  by (simp_all add: clearInterval_def split: option.splits)

lemma gs_endGame: "gs (endGame w) = (gs w)\<lparr>gameActive := False\<rparr>"
  by (simp add: endGame_def Let_def)

lemma nextQuestion_keeps:
  "currentQuestionIndex (gs (nextQuestion w)) = currentQuestionIndex (gs w)"
  "score (gs (nextQuestion w)) = score (gs w)"
  "totalTime (gs (nextQuestion w)) = totalTime (gs w)"
  by (simp_all add: nextQuestion_def gs_endGame Let_def startTimer_def)

text \<open>A line typed while a question of the quiz is open resumes \<^verbatim>\<open>nextQuestion\<close>.\<close>

lemma step_answer_line:
  assumes "questionCallback w = Some (NextQuestionAwait q)" "\<not> closed w" "thrown w = None"
  shows "step (Line line t) w = nextQuestionResume q (trim line) t (w\<lparr>questionCallback := None\<rparr>)"
  using assms by (simp add: step_def)

subsection \<open>Timer against input\<close>

text \<open>
  Once the player's line has been handled the interval of the question is cleared: a later
  firing of it changes nothing.
\<close>

lemma map_of_filter_out: "map_of (filter (\<lambda>(j, v). j \<noteq> i) xs) i = None"
  by (induction xs) auto

lemma intervals_endGame:
  "intervals (endGame w) = intervals (clearInterval (timerId (gs w)) w)"
  by (simp add: endGame_def Let_def rlQuestion_def say_def clearInterval_def
      split: option.splits)

lemma tick_of_cleared_interval: "map_of (intervals w) i = None \<Longrightarrow> step (Tick i) w = w"
  by (simp add: step_def timerTick_def)

lemma tick_after_input_is_noop:
  assumes "questionCallback w = Some (NextQuestionAwait q)" "\<not> closed w" "thrown w = None"
    and "0 < timePerQuestion (gs w)" and "timerId (gs w) = Some i"
  shows "step (Tick i) (step (Line line t) w) = step (Line line t) w"
proof -
  have "intervals (step (Line line t) w) = filter (\<lambda>(j, v). j \<noteq> i) (intervals w)"
    using assms(4,5)
    by (simp add: step_answer_line [OF assms(1-3)] nextQuestionResume_def Let_def
        intervals_endGame setTimeout_def say_def clearInterval_def
        split: prod.splits completion.splits)
  then have "map_of (intervals (step (Line line t) w)) i = None"
    by (simp add: map_of_filter_out)
  then show ?thesis
    by (rule tick_of_cleared_interval)
qed

text \<open>
  Claim C3: with the timer enabled at most one outcome of a question is acted upon; in
  particular input that arrives after the timeout has fired is ignored, so that one
  question never advances the index twice.
  The script does not ignore it. In \<open>firstQuestionTimesOut\<close> the 30 seconds of
  question 0 pass: the timeout prints its message and schedules its advance, but the
  interval is not cleared and the question stays open. Within the next two seconds the
  player types \<^verbatim>\<open>skip\<close>: the line is handled as the answer to question 0 and advances the
  index to 1. Two seconds after the timeout its advance runs as well: the index is 2, the
  number of questions, and the game is over, although question 0 is the only one that was
  ever shown. (The other direction holds, see \<open>tick_after_input_is_noop\<close>.)
\<close>

theorem input_after_timeout_advances_again:
  "shownQuestions (console (run firstQuestionTimesOut start)) = [0]
   \<and> currentQuestionIndex (gs (run firstQuestionTimesOut start)) = 0
   \<and> timeouts (run firstQuestionTimesOut start) = [TimeoutAdvance]
   \<and> questionCallback (run firstQuestionTimesOut start)
       = Some (NextQuestionAwait (fallbackQuestions ! 0))
   \<and> currentQuestionIndex (gs (run (firstQuestionTimesOut @ [Line ''skip'' 30]) start)) = 1
   \<and> timeouts (run (firstQuestionTimesOut @ [Line ''skip'' 30]) start)
       = [TimeoutAdvance, CallNextQuestion]
   \<and> currentQuestionIndex
       (gs (run (firstQuestionTimesOut @ [Line ''skip'' 30, Fire 0]) start)) = 2
   \<and> shownQuestions
       (console (run (firstQuestionTimesOut @ [Line ''skip'' 30, Fire 0]) start)) = [0]
   \<and> \<not> gameActive (gs (run (firstQuestionTimesOut @ [Line ''skip'' 30, Fire 0]) start))"
  by (simp add: eval_defs)

text \<open>
  Taken alone, each way of resolving an open question keeps the index within the list:
  the line typed by the player, and the advance of a timeout.
\<close>

lemma processAnswer_keeps:
  "currentQuestionIndex (fst (snd (processAnswer q a t g))) = currentQuestionIndex g"
  "questions (fst (snd (processAnswer q a t g))) = questions g"
  by (simp_all add: processAnswer_code split: option.splits)

lemma questions_nextQuestion: "questions (gs (nextQuestion w)) = questions (gs w)"
  by (simp add: nextQuestion_def gs_endGame Let_def startTimer_def)

lemma line_keeps_index_in_range:
  assumes "questionCallback w = Some (NextQuestionAwait q)" "\<not> closed w" "thrown w = None"
    and "0 \<le> currentQuestionIndex (gs w)"
    and "currentQuestionIndex (gs w) < int (length (questions (gs w)))"
  shows "0 \<le> currentQuestionIndex (gs (step (Line line t) w))
       \<and> currentQuestionIndex (gs (step (Line line t) w))
           \<le> int (length (questions (gs (step (Line line t) w))))"
proof -
  obtain c g out where pa: "processAnswer q (trim line) t (gs w) = (c, g, out)"
    by (cases "processAnswer q (trim line) t (gs w)") auto
  have "currentQuestionIndex g = currentQuestionIndex (gs w)" "questions g = questions (gs w)"
    using processAnswer_keeps [of q "trim line" t "gs w"] pa by simp_all
  then show ?thesis
    using assms(4,5) pa
    by (cases c)
      (simp_all add: step_answer_line [OF assms(1-3)] nextQuestionResume_def Let_def gs_endGame)
qed

lemma timeout_advance_keeps_index_in_range:
  assumes "n < length (timeouts w)" "timeouts w ! n = TimeoutAdvance"
    and "\<not> closed w" "thrown w = None"
    and "0 \<le> currentQuestionIndex (gs w)"
    and "currentQuestionIndex (gs w) < int (length (questions (gs w)))"
  shows "0 \<le> currentQuestionIndex (gs (step (Fire n) w))
       \<and> currentQuestionIndex (gs (step (Fire n) w))
           \<le> int (length (questions (gs (step (Fire n) w))))"
  using assms by (simp add: step_def nextQuestion_keeps questions_nextQuestion)

text \<open>
  Claim C4: in every reachable state \<open>0 \<le> currentIndex \<le> length questions\<close>.
  The script reaches a state outside, when both are applied to the same question: in
  \<open>lastQuestionTimesOut\<close> the time of the last of the two questions passes; the player
  types \<^verbatim>\<open>skip\<close> within the two seconds before the advance of the timeout runs, which moves
  the index to 2, and the advance of the timeout moves it to 3.
\<close>

theorem index_exceeds_question_count:
  "reachable (run (lastQuestionTimesOut @ [Line ''skip'' 30, Fire 0]) start)
   \<and> currentQuestionIndex
       (gs (run (lastQuestionTimesOut @ [Line ''skip'' 30, Fire 0]) start)) = 3
   \<and> length (questions (gs (run (lastQuestionTimesOut @ [Line ''skip'' 30, Fire 0]) start)))
       = 2"
proof -
  have "reachable (run (lastQuestionTimesOut @ [Line ''skip'' 30, Fire 0]) start)"
    unfolding reachable_def by blast
  then show ?thesis
    by (simp add: eval_defs)
qed

subsection \<open>Starting again\<close>

text \<open>
  Claim C5: every play-through starts from a new state, with \<open>timePerQuestion\<close> taken from
  the player's choice for that play-through.
  \<^verbatim>\<open>startGame\<close> resets the index, the score and the time, but it only ever writes 0 to
  \<open>timePerQuestion\<close> and never the 30 back. After a game played without timer, the answer
  yes to the timer prompt of the next game leaves \<open>timePerQuestion\<close> at 0 and no interval
  is started, where the same answer in a first game gives 30 seconds and an interval.
\<close>

theorem replay_keeps_disabled_timer:
  "timePerQuestion (gs (run timedGame start)) = 30
   \<and> intervals (run timedGame start) = [(0, \<lparr>timeLeft = 30, answered = False\<rparr>)]
   \<and> currentQuestionIndex (gs (run replayWithTimer start)) = 0
   \<and> score (gs (run replayWithTimer start)) = 0
   \<and> totalTime (gs (run replayWithTimer start)) = 0
   \<and> timePerQuestion (gs (run replayWithTimer start)) = 0
   \<and> intervals (run replayWithTimer start) = []
   \<and> questionCallback (run replayWithTimer start)
       = Some (NextQuestionAwait (fallbackQuestions ! 0))"
  by (simp add: eval_defs)

subsection \<open>Skip, timeout and invalid input\<close>

text \<open>
  What a skip and a timeout do to the game state. The timeout is the firing of the
  interval that brings \<open>timeLeft\<close> to 0, followed by the advance it scheduled. In both
  cases the score stays as it was, the index advances by exactly 1, and \<open>totalTime\<close> is
  not written.
\<close>

lemma skip_and_timeout_advance_by_one:
  assumes "questionCallback w = Some (NextQuestionAwait q)"
    and "\<not> closed w" and "thrown w = None"
    and "toLowerCase (trim line) = ''skip''"
    and "map_of (intervals v) i = Some iv" and "timeLeft iv \<le> 1" and "\<not> answered iv"
    and "\<not> closed v" and "thrown v = None"
  shows "score (gs (step (Line line t) w)) = score (gs w)
       \<and> currentQuestionIndex (gs (step (Line line t) w)) = currentQuestionIndex (gs w) + 1
       \<and> totalTime (gs (step (Line line t) w)) = totalTime (gs w)
       \<and> gs (step (Tick i) v) = gs v
       \<and> timeouts (step (Tick i) v) = timeouts v @ [TimeoutAdvance]
       \<and> score (gs (step (Fire (length (timeouts v))) (step (Tick i) v))) = score (gs v)
       \<and> currentQuestionIndex (gs (step (Fire (length (timeouts v))) (step (Tick i) v)))
           = currentQuestionIndex (gs v) + 1
       \<and> totalTime (gs (step (Fire (length (timeouts v))) (step (Tick i) v))) = totalTime (gs v)"
proof -
  have skip: "gs (step (Line line t) w)
      = (gs w)\<lparr>currentQuestionIndex := currentQuestionIndex (gs w) + 1\<rparr>"
    using assms(4)
    by (simp add: step_answer_line [OF assms(1-3)] nextQuestionResume_def Let_def)
  have tick: "step (Tick i) v
      = setTimeout TimeoutAdvance
          (say TimesUp
             (v\<lparr>intervals :=
                  map (\<lambda>(j, old). if j = i then (j, \<lparr>timeLeft = timeLeft iv - 1, answered = True\<rparr>)
                                   else (j, old)) (intervals v)\<rparr>))"
    using assms(5-9) by (simp add: step_def timerTick_def Let_def)
  have after_tick: "gs (step (Tick i) v) = gs v"
    "timeouts (step (Tick i) v) = timeouts v @ [TimeoutAdvance]"
    "\<not> closed (step (Tick i) v)" "thrown (step (Tick i) v) = None"
    using assms(8,9) by (simp_all add: tick setTimeout_def say_def)
  have fire: "step (Fire (length (timeouts v))) (step (Tick i) v)
      = nextQuestion
          ((step (Tick i) v)
             \<lparr>timeouts := timeouts v,
              gs := (gs v)\<lparr>currentQuestionIndex := currentQuestionIndex (gs v) + 1\<rparr>\<rparr>)"
    using after_tick by (simp add: step_def)
  show ?thesis
    by (simp add: skip after_tick fire nextQuestion_keeps)
qed

lemma skip_and_timeout_advance_by_one_example:
  "score (gs (step (Line ''skip'' 7) (run untimedGame start))) = 0
   \<and> currentQuestionIndex (gs (step (Line ''skip'' 7) (run untimedGame start))) = 1
   \<and> totalTime (gs (step (Line ''skip'' 7) (run untimedGame start))) = 0
   \<and> score (gs (step (Fire 0) (step (Tick 0) (run almostTimedOut start)))) = 0
   \<and> currentQuestionIndex (gs (step (Fire 0) (step (Tick 0) (run almostTimedOut start)))) = 1
   \<and> totalTime (gs (step (Fire 0) (step (Tick 0) (run almostTimedOut start)))) = 0"
proof -
  have w: "questionCallback (run untimedGame start)
      = Some (NextQuestionAwait (fallbackQuestions ! 0))"
    "\<not> closed (run untimedGame start)" "thrown (run untimedGame start) = None"
    "score (gs (run untimedGame start)) = 0"
    "currentQuestionIndex (gs (run untimedGame start)) = 0"
    "totalTime (gs (run untimedGame start)) = 0"
    by (simp_all add: eval_defs)
  have skip: "toLowerCase (trim ''skip'') = ''skip''"
    by (simp add: string_defs)
  have v: "map_of (intervals (run almostTimedOut start)) 0
      = Some \<lparr>timeLeft = 1, answered = False\<rparr>"
    "\<not> closed (run almostTimedOut start)" "thrown (run almostTimedOut start) = None"
    "timeouts (run almostTimedOut start) = []"
    "score (gs (run almostTimedOut start)) = 0"
    "currentQuestionIndex (gs (run almostTimedOut start)) = 0"
    "totalTime (gs (run almostTimedOut start)) = 0"
    by (simp_all add: eval_defs)
  from skip_and_timeout_advance_by_one [OF w(1-3) skip v(1) _ _ v(2,3), of 7]
  show ?thesis
    by (simp add: w v)
qed

text \<open>
  Claim C6: resolving a question by skip or by timeout leaves the score unchanged, advances
  the index by exactly 1, and accounts the elapsed time in \<open>totalTime\<close>: the seconds
  taken on a skip, the whole budget on a timeout.
  The script does not account the time. \<open>answerTime\<close> is computed before the skip is
  recognised and is added to \<open>totalTime\<close> for every other line, but the skip branch
  returns before that statement and the callback of the timeout only advances the index.
  A skip after 7 seconds and a timeout after 30 seconds both advance the index and leave
  \<open>totalTime\<close> at 0. When both questions time out the report, which divides
  \<open>totalTime\<close> by the number of questions passed, counts 2 questions with a time taken
  of 0 and an average of 0.
\<close>

theorem skip_and_timeout_record_no_time:
  "currentQuestionIndex (gs (run (untimedGame @ [Line ''skip'' 7]) start)) = 1
   \<and> totalTime (gs (run (untimedGame @ [Line ''skip'' 7]) start))
       \<noteq> totalTime (gs (run untimedGame start)) + 7
   \<and> currentQuestionIndex (gs (run (firstQuestionTimesOut @ [Fire 0]) start)) = 1
   \<and> totalTime (gs (run (firstQuestionTimesOut @ [Fire 0]) start))
       \<noteq> totalTime (gs (run timedGame start)) + 30
   \<and> currentQuestionIndex (gs (run bothQuestionsTimeOut start)) = 2
   \<and> totalTime (gs (run bothQuestionsTimeOut start)) = 0
   \<and> map questionsAnswered (reportsPrinted (console (run bothQuestionsTimeOut start))) = [2]
   \<and> map timeTaken (reportsPrinted (console (run bothQuestionsTimeOut start))) = [0]
   \<and> map averageTime (reportsPrinted (console (run bothQuestionsTimeOut start))) = [Num 0]"
  by (simp add: eval_defs endGameReport_def jsDivide_def)

text \<open>
  Claim C7: a line that is neither \<^verbatim>\<open>skip\<close> nor \<^verbatim>\<open>quit\<close> and does not parse to an integer
  between 1 and the number of options is rejected (\<^verbatim>\<open>processAnswer\<close> returns false), the
  invalid-answer message is printed, the score is unchanged, the session goes on (still
  active as before, not closed, no error, the next question scheduled) and the index
  advances by 1.
\<close>

theorem invalid_answer_advances_without_score:
  assumes "questionCallback w = Some (NextQuestionAwait q)"
    and "\<not> closed w" and "thrown w = None"
    and "toLowerCase (trim line) \<noteq> ''quit''" and "toLowerCase (trim line) \<noteq> ''skip''"
    and "\<forall>n. parseInt (trim line) = Some n \<longrightarrow> n < 1 \<or> int (length (options q)) < n"
  shows "fst (processAnswer q (trim line) t (gs w)) = Returned False
       \<and> console (step (Line line t) w) = console w @ [InvalidAnswer]
       \<and> score (gs (step (Line line t) w)) = score (gs w)
       \<and> gameActive (gs (step (Line line t) w)) = gameActive (gs w)
       \<and> \<not> closed (step (Line line t) w)
       \<and> thrown (step (Line line t) w) = None
       \<and> currentQuestionIndex (gs (step (Line line t) w)) = currentQuestionIndex (gs w) + 1
       \<and> timeouts (step (Line line t) w) = timeouts w @ [CallNextQuestion]"
proof -
  have invalid: "processAnswer q (trim line) t g = (Returned False, g, [InvalidAnswer])" for g
    using assms(6) by (cases "parseInt (trim line)") (auto simp: processAnswer_def Let_def)
  show ?thesis
    using assms(2-5)
    by (simp add: step_answer_line [OF assms(1-3)] nextQuestionResume_def Let_def invalid
        setTimeout_def)
qed

theorem invalid_answer_advances_without_score_witness:
  "console (step (Line ''5'' 3) (run untimedGame start))
     = console (run untimedGame start) @ [InvalidAnswer]
   \<and> score (gs (step (Line ''5'' 3) (run untimedGame start))) = 0
   \<and> gameActive (gs (step (Line ''5'' 3) (run untimedGame start)))
   \<and> currentQuestionIndex (gs (step (Line ''5'' 3) (run untimedGame start))) = 1"
proof -
  have w: "questionCallback (run untimedGame start)
      = Some (NextQuestionAwait (fallbackQuestions ! 0))"
    "\<not> closed (run untimedGame start)" "thrown (run untimedGame start) = None"
    "score (gs (run untimedGame start)) = 0"
    "currentQuestionIndex (gs (run untimedGame start)) = 0"
    "gameActive (gs (run untimedGame start))"
    by (simp_all add: eval_defs)
  have line: "toLowerCase (trim ''5'') \<noteq> ''quit''" "toLowerCase (trim ''5'') \<noteq> ''skip''"
    "\<forall>n. parseInt (trim ''5'') = Some n
        \<longrightarrow> n < 1 \<or> int (length (options (fallbackQuestions ! 0))) < n"
    by (simp_all add: string_defs fallbackQuestions_def)
  from invalid_answer_advances_without_score [OF w(1-3) line, of 3]
  show ?thesis
    by (simp add: w)
qed

subsection \<open>Quitting and the final report\<close>

lemma reachedQuestions_take: "reachedQuestions qs k = take (nat k) qs"
proof (induction qs rule: rev_induct)
  case Nil
  show ?case by (simp add: reachedQuestions_def)
next
  case (snoc q qs)
  have last: "reachedQuestions (qs @ [q]) k
      = reachedQuestions qs k @ (if int (length qs) < k then [q] else [])"
    by (simp add: reachedQuestions_def)
  show ?case
  proof (cases "int (length qs) < k")
    case True
    then have "length qs < nat k" by linarith
    then show ?thesis
      using snoc True by (simp add: last)
  next
    case False
    then have "nat k \<le> length qs" by linarith
    then show ?thesis
      using snoc False by (simp add: last)
  qed
qed

text \<open>
  What the tally holds for a category: the number and the points of the questions of that
  category, and nothing for a category named like an inherited property.
\<close>

lemma addCategory_tally:
  "foldl addCategory Map.empty qs c =
    (if c \<in> set objectPrototypeProperties \<or> filter (\<lambda>q. category q = c) qs = [] then None
     else Some \<lparr>statQuestions = int (length (filter (\<lambda>q. category q = c) qs)),
                statPoints = sum_list (map points (filter (\<lambda>q. category q = c) qs))\<rparr>)"
proof (induction qs rule: rev_induct)
  case Nil
  show ?case by simp
next
  case (snoc q qs)
  show ?case
  proof (cases "category q = c")
    case True
    then show ?thesis
      using snoc by (auto simp: addCategory_def split: option.splits)
  next
    case False
    then show ?thesis
      using snoc by (auto simp: addCategory_def split: option.splits)
  qed
qed

text \<open>
  The step taken when the player types \<^verbatim>\<open>quit\<close> at question \<open>k\<close>: the index stays \<open>k\<close>,
  the game is over, and the report printed counts \<open>k\<close> questions and holds, for every
  category, the number and the points of the questions of that category among the first
  \<open>k\<close> (nothing for a category named like an inherited property).
\<close>

lemma quit_step_reports_first_k_questions:
  assumes "questionCallback w = Some (NextQuestionAwait q)"
    and "\<not> closed w" and "thrown w = None"
    and "toLowerCase (trim line) = ''quit''"
    and "currentQuestionIndex (gs w) = k"
  shows "currentQuestionIndex (gs (step (Line line t) w)) = k
       \<and> \<not> gameActive (gs (step (Line line t) w))
       \<and> questionCallback (step (Line line t) w) = Some PlayAgainCallback
       \<and> console (step (Line line t) w)
           = console w @ [GameOver (endGameReport (gs (step (Line line t) w)))]
       \<and> questionsAnswered (endGameReport (gs (step (Line line t) w))) = k
       \<and> categoryStats (endGameReport (gs (step (Line line t) w))) c
           = (if c \<in> set objectPrototypeProperties
                 \<or> filter (\<lambda>q. category q = c) (take (nat k) (questions (gs w))) = []
              then None
              else Some
                \<lparr>statQuestions =
                   int (length (filter (\<lambda>q. category q = c) (take (nat k) (questions (gs w))))),
                 statPoints =
                   sum_list (map points
                     (filter (\<lambda>q. category q = c) (take (nat k) (questions (gs w)))))\<rparr>)"
proof -
  have quit: "step (Line line t) w
      = endGame (if 0 < timePerQuestion (gs w)
                 then clearInterval (timerId (gs w)) (w\<lparr>questionCallback := None\<rparr>)
                 else w\<lparr>questionCallback := None\<rparr>)"
    using assms(4)
    by (simp add: step_answer_line [OF assms(1-3)] nextQuestionResume_def Let_def)
  have state: "gs (step (Line line t) w) = (gs w)\<lparr>gameActive := False\<rparr>"
    by (simp add: quit gs_endGame)
  have printed: "console (step (Line line t) w)
      = console w @ [GameOver (endGameReport ((gs w)\<lparr>gameActive := False\<rparr>))]"
    by (simp add: quit endGame_def Let_def say_def rlQuestion_def)
  have prompt: "questionCallback (step (Line line t) w) = Some PlayAgainCallback"
    by (simp add: quit endGame_def Let_def say_def rlQuestion_def)
  have answered: "questionsAnswered (endGameReport ((gs w)\<lparr>gameActive := False\<rparr>)) = k"
    using assms(5) by (simp add: endGameReport_def Let_def)
  have tally: "categoryStats (endGameReport ((gs w)\<lparr>gameActive := False\<rparr>))
      = foldl addCategory Map.empty (take (nat k) (questions (gs w)))"
    using assms(5) by (simp add: endGameReport_def Let_def reachedQuestions_take)
  show ?thesis
    using assms(5) by (simp add: state printed prompt answered tally addCategory_tally)
qed

lemma idle_world_ignores_callbacks:
  assumes "intervals v = []" "timeouts v = []" "\<not> readingFile v"
  shows "step (Tick i) v = v \<and> step (Fire n) v = v \<and> step (FileRead loaded) v = v"
  using assms by (simp add: step_def timerTick_def)

text \<open>
  With no timeout pending and no other interval alive, the quit is final: until the player
  answers the prompt, no event changes anything.
\<close>

lemma quit_is_final_without_pending_callbacks:
  assumes "questionCallback w = Some (NextQuestionAwait q)"
    and "\<not> closed w" and "thrown w = None"
    and "toLowerCase (trim line) = ''quit''"
    and "timeouts w = []" and "\<not> readingFile w"
    and "\<forall>j\<in>fst ` set (intervals w). timerId (gs w) = Some j"
  shows "step (Tick i) (step (Line line t) w) = step (Line line t) w
       \<and> step (Fire n) (step (Line line t) w) = step (Line line t) w
       \<and> step (FileRead loaded) (step (Line line t) w) = step (Line line t) w"
proof -
  have quit: "step (Line line t) w
      = endGame (if 0 < timePerQuestion (gs w)
                 then clearInterval (timerId (gs w)) (w\<lparr>questionCallback := None\<rparr>)
                 else w\<lparr>questionCallback := None\<rparr>)"
    using assms(4)
    by (simp add: step_answer_line [OF assms(1-3)] nextQuestionResume_def Let_def)
  have none_left: "filter (\<lambda>(j, v). j \<noteq> a) (intervals w) = []" if "timerId (gs w) = Some a" for a
    using assms(7) that by (auto simp: filter_empty_conv)
  have no_intervals: "timerId (gs w) = None \<Longrightarrow> intervals w = []"
    using assms(7) by (cases "intervals w") auto
  have left: "intervals (step (Line line t) w) = []"
    "timeouts (step (Line line t) w) = []"
    "\<not> readingFile (step (Line line t) w)"
    using assms(5,6) none_left no_intervals
    by (auto simp: quit endGame_def Let_def say_def rlQuestion_def clearInterval_def
        split: option.splits)
  show ?thesis
    using left by (rule idle_world_ignores_callbacks)
qed

text \<open>A category named like an inherited property, in a whole run.\<close>

lemma inherited_category_is_not_tallied:
  "currentQuestionIndex (gs (run constructorQuiz start)) = 1
   \<and> map questionsAnswered (reportsPrinted (console (run constructorQuiz start))) = [1]
   \<and> map (tallyOf ''constructor'') (reportsPrinted (console (run constructorQuiz start)))
       = [None]"
  by (simp add: eval_defs endGameReport_def reachedQuestions_def addCategory_def
      objectPrototypeProperties_def)

text \<open>
  Claim C8: in every session \<^verbatim>\<open>quit\<close> typed at question \<open>k\<close> ends the session with the
  index at \<open>k\<close>, and the resulting report reflects exactly the first \<open>k\<close> questions.
  The script does not end every session there. In \<open>quitAfterTimeout\<close> the time of
  question 0 has passed and the advance of the timeout is pending when the player types
  \<^verbatim>\<open>quit\<close>: the game is over with the index at 0 and a report over 0 questions. \<^verbatim>\<open>endGame\<close>
  cancels no timeout, so the advance runs two seconds after the timeout: the index is 1,
  and \<^verbatim>\<open>nextQuestion\<close>, finding the game inactive, calls \<^verbatim>\<open>endGame\<close> again, which prints a second
  report, over 1 question and with the tally of question 0.
\<close>

theorem quit_after_timeout_reports_twice:
  "currentQuestionIndex (gs (run firstQuestionTimesOut start)) = 0
   \<and> questionCallback (run firstQuestionTimesOut start)
       = Some (NextQuestionAwait (fallbackQuestions ! 0))
   \<and> timeouts (run firstQuestionTimesOut start) = [TimeoutAdvance]
   \<and> currentQuestionIndex (gs (run quitAfterTimeout start)) = 0
   \<and> \<not> gameActive (gs (run quitAfterTimeout start))
   \<and> map questionsAnswered (reportsPrinted (console (run quitAfterTimeout start))) = [0]
   \<and> timeouts (run quitAfterTimeout start) = [TimeoutAdvance]
   \<and> currentQuestionIndex (gs (run (quitAfterTimeout @ [Fire 0]) start)) = 1
   \<and> map questionsAnswered
        (reportsPrinted (console (run (quitAfterTimeout @ [Fire 0]) start))) = [0, 1]
   \<and> map (tallyOf ''Math'')
        (reportsPrinted (console (run (quitAfterTimeout @ [Fire 0]) start)))
       = [None, Some \<lparr>statQuestions = 1, statPoints = 5\<rparr>]"
  by (simp add: eval_defs endGameReport_def reachedQuestions_def addCategory_def
      objectPrototypeProperties_def)

text \<open>
  Claim C9, as the script has it: with no question answered the average time is reported
  as 0, otherwise as the quotient. The percentage has no guard: it is the quotient times
  100 when the possible points are not 0, and not a finite number when they are; for a
  score of 0 it is then \<^verbatim>\<open>NaN\<close>, every comparison of the two ladders fails, and the report
  shows the grade F and the last feedback line. No error is raised in either case.
\<close>

theorem average_guarded_percentage_unguarded:
  "(currentQuestionIndex g \<le> 0 \<longrightarrow> averageTime (endGameReport g) = Num 0)
   \<and> (0 < currentQuestionIndex g \<longrightarrow>
        averageTime (endGameReport g)
          = Num (of_int (totalTime g) / of_int (currentQuestionIndex g)))
   \<and> (totalPossiblePoints (questions g) \<noteq> 0 \<longrightarrow>
        percentageOf (score g) (totalPossiblePoints (questions g))
          = Num (of_int (score g) / of_int (totalPossiblePoints (questions g)) * 100))
   \<and> (totalPossiblePoints (questions g) = 0 \<longrightarrow>
        \<not> isFiniteNumber (percentageOf (score g) (totalPossiblePoints (questions g))))
   \<and> (totalPossiblePoints (questions g) = 0 \<and> score g = 0 \<longrightarrow>
        percentageOf (score g) (totalPossiblePoints (questions g)) = NaN
        \<and> grade (endGameReport g) = ''F''
        \<and> feedback (endGameReport g) = ''Keep learning! Every expert was once a beginner!'')"
  by (simp add: endGameReport_def Let_def jsDivide_def percentageOf_def calculateGrade_def
      finalFeedback_def)

theorem average_guarded_percentage_unguarded_witness:
  "averageTime (endGameReport (gs (run emptyQuiz start))) = Num 0
   \<and> grade (endGameReport (gs (run emptyQuiz start))) = ''F''
   \<and> averageTime (endGameReport (gs (run (untimedGame @ [Line ''1'' 9]) start))) = Num 9
   \<and> percentageOf (score (gs (run (timedGame @ [Line ''2'' 3]) start)))
        (totalPossiblePoints (questions (gs (run (timedGame @ [Line ''2'' 3]) start))))
       = Num 70"
proof -
  have e: "currentQuestionIndex (gs (run emptyQuiz start)) \<le> 0"
    "totalPossiblePoints (questions (gs (run emptyQuiz start))) = 0
      \<and> score (gs (run emptyQuiz start)) = 0"
    by (simp_all add: eval_defs totalPossiblePoints_def)
  have u: "0 < currentQuestionIndex (gs (run (untimedGame @ [Line ''1'' 9]) start))"
    "totalTime (gs (run (untimedGame @ [Line ''1'' 9]) start)) = 9"
    "currentQuestionIndex (gs (run (untimedGame @ [Line ''1'' 9]) start)) = 1"
    by (simp_all add: eval_defs)
  have t: "totalPossiblePoints (questions (gs (run (timedGame @ [Line ''2'' 3]) start))) = 10"
    "score (gs (run (timedGame @ [Line ''2'' 3]) start)) = 7"
    by (simp_all add: eval_defs totalPossiblePoints_def)
  from average_guarded_percentage_unguarded [of "gs (run emptyQuiz start)"]
    average_guarded_percentage_unguarded [of "gs (run (untimedGame @ [Line ''1'' 9]) start)"]
    average_guarded_percentage_unguarded [of "gs (run (timedGame @ [Line ''2'' 3]) start)"]
  show ?thesis
    using e u t by simp
qed

text \<open>
  Claim C9 as stated has the percentage guarded against a division by zero. For a file
  with an empty list of questions the game is over at once, with 0 possible points, and
  the percentage the script computes is \<^verbatim>\<open>NaN\<close>.
\<close>

theorem percentage_of_empty_quiz_is_NaN:
  "totalPossiblePoints (questions (gs (run emptyQuiz start))) = 0
   \<and> percentageOf (score (gs (run emptyQuiz start)))
        (totalPossiblePoints (questions (gs (run emptyQuiz start)))) = NaN
   \<and> \<not> isFiniteNumber
        (percentageOf (score (gs (run emptyQuiz start)))
           (totalPossiblePoints (questions (gs (run emptyQuiz start)))))"
  by (simp add: eval_defs totalPossiblePoints_def percentageOf_def jsDivide_def)

end
